theory Spec2Isabelle
  imports Complex_Main "HOL-Library.Sublist" "HOL-Library.Multiset" "HOL-Library.List_Lexorder"
begin

section \<open>Values that travel through the handlers\<close>

text \<open>
  The server is a set of Express route handlers; \<^verbatim>\<open>index.js\<close> holds the chat handler
  alone, the other source file the same chat handler and the card handlers. Each handler reads
  the parsed request, awaits calls on two clients (the Supabase row store and the Gemini
  completion provider) and answers with a status and a JSON body. Request bodies, stored
  rows and response bodies are JSON values. A JSON number is kept as its numeric value;
  the handlers only ever test it for being zero.
\<close>

datatype json =
    JNull
  | JBool bool
  | JNum rat
  | JStr string
  | JArr "json list"
  | JObj "(string \<times> json) list"

text \<open>
  JavaScript's truthiness, as \<^verbatim>\<open>if (!x)\<close> and \<^verbatim>\<open>if (x)\<close> test it: \<^verbatim>\<open>null\<close>,
  \<^verbatim>\<open>false\<close>, \<^verbatim>\<open>0\<close> and the empty string are falsy, every array and object is
  truthy. A property that is absent reads as \<^verbatim>\<open>undefined\<close>, which is falsy too.
\<close>

fun truthy :: "json \<Rightarrow> bool" where
  "truthy JNull = False"
| "truthy (JBool b) = b"
| "truthy (JNum n) = (n \<noteq> 0)"
| "truthy (JStr s) = (s \<noteq> [])"
| "truthy (JArr xs) = True"
| "truthy (JObj kvs) = True"

fun truthy_opt :: "json option \<Rightarrow> bool" where
  "truthy_opt None = False"
| "truthy_opt (Some v) = truthy v"

text \<open>
  Property lookup \<^verbatim>\<open>obj[key]\<close>. \<^verbatim>\<open>express.json()\<close> hands a handler an object (or
  an array, on which none of the keys used here is defined); the member list of an object
  holds each key once, as \<^verbatim>\<open>JSON.parse\<close> leaves it.
\<close>

fun get_prop :: "json \<Rightarrow> string \<Rightarrow> json option" where
  "get_prop (JObj kvs) k = map_of kvs k"
| "get_prop v k = None"

subsection \<open>String constants of the source\<close>

text \<open>
  Column names and messages of the source are Chinese text; a \<^typ>\<open>string\<close> holds their
  UTF-8 bytes.
\<close>

definition col_issuer :: string where \<comment> \<open>column of the issuing institution (issuer)\<close>
  "col_issuer =
    [CHR 0xE7, CHR 0x99, CHR 0xBC, CHR 0xE5, CHR 0x8D, CHR 0xA1, CHR 0xE6, CHR 0xA9,
     CHR 0x9F, CHR 0xE6, CHR 0xA7, CHR 0x8B]"

definition col_card_name :: string where \<comment> \<open>column of the card name\<close>
  "col_card_name =
    [CHR 0xE5, CHR 0x8D, CHR 0xA1, CHR 0xE5, CHR 0x90, CHR 0x8D]"

definition col_spend_category :: string where \<comment> \<open>column of the spending category\<close>
  "col_spend_category =
    [CHR 0xE6, CHR 0xB6, CHR 0x88, CHR 0xE8, CHR 0xB2, CHR 0xBB, CHR 0xE7, CHR 0xA8,
     CHR 0xAE, CHR 0xE9, CHR 0xA1, CHR 0x9E]"

definition col_reward_value :: string where \<comment> \<open>column of the reward value\<close>
  "col_reward_value =
    [CHR 0xE5, CHR 0x9B, CHR 0x9E, CHR 0xE9, CHR 0xA5, CHR 0x8B, CHR 0xE6, CHR 0x95,
     CHR 0xB8, CHR 0xE5, CHR 0x80, CHR 0xBC]"

definition col_region :: string where \<comment> \<open>column of the region of the charge\<close>
  "col_region =
    [CHR 0xE7, CHR 0xB0, CHR 0xBD, CHR 0xE5, CHR 0xB8, CHR 0xB3, CHR 0xE5, CHR 0x9C,
     CHR 0xB0, CHR 0xE5, CHR 0x8D, CHR 0x80]"

definition msg_read_failed :: string where \<comment> \<open>cards could not be read\<close>
  "msg_read_failed =
    [CHR 0xE7, CHR 0x84, CHR 0xA1, CHR 0xE6, CHR 0xB3, CHR 0x95, CHR 0xE8, CHR 0xAE,
     CHR 0x80, CHR 0xE5, CHR 0x8F, CHR 0x96, CHR 0xE4, CHR 0xBF, CHR 0xA1, CHR 0xE7,
     CHR 0x94, CHR 0xA8, CHR 0xE5, CHR 0x8D, CHR 0xA1, CHR 0xE8, CHR 0xB3, CHR 0x87,
     CHR 0xE6, CHR 0x96, CHR 0x99]"

definition msg_server_error :: string where \<comment> \<open>the server ran into an error\<close>
  "msg_server_error =
    [CHR 0xE4, CHR 0xBC, CHR 0xBA, CHR 0xE6, CHR 0x9C, CHR 0x8D, CHR 0xE5, CHR 0x99,
     CHR 0xA8, CHR 0xE7, CHR 0x99, CHR 0xBC, CHR 0xE7, CHR 0x94, CHR 0x9F, CHR 0xE9,
     CHR 0x8C, CHR 0xAF, CHR 0xE8, CHR 0xAA, CHR 0xA4]"

definition msg_missing_field :: string where \<comment> \<open>a required field is missing (prefix of the message)\<close>
  "msg_missing_field =
    [CHR 0xE7, CHR 0xBC, CHR 0xBA, CHR 0xE5, CHR 0xB0, CHR 0x91, CHR 0xE5, CHR 0xBF,
     CHR 0x85, CHR 0xE8, CHR 0xA6, CHR 0x81, CHR 0xE6, CHR 0xAC, CHR 0x84, CHR 0xE4,
     CHR 0xBD, CHR 0x8D, CHR 0x3A, CHR 0x20]"

definition msg_create_failed :: string where \<comment> \<open>the card could not be created\<close>
  "msg_create_failed =
    [CHR 0xE7, CHR 0x84, CHR 0xA1, CHR 0xE6, CHR 0xB3, CHR 0x95, CHR 0xE6, CHR 0x96,
     CHR 0xB0, CHR 0xE5, CHR 0xA2, CHR 0x9E, CHR 0xE4, CHR 0xBF, CHR 0xA1, CHR 0xE7,
     CHR 0x94, CHR 0xA8, CHR 0xE5, CHR 0x8D, CHR 0xA1, CHR 0xE8, CHR 0xB3, CHR 0x87,
     CHR 0xE6, CHR 0x96, CHR 0x99]"

definition msg_update_failed :: string where \<comment> \<open>the card could not be updated\<close>
  "msg_update_failed =
    [CHR 0xE7, CHR 0x84, CHR 0xA1, CHR 0xE6, CHR 0xB3, CHR 0x95, CHR 0xE6, CHR 0x9B,
     CHR 0xB4, CHR 0xE6, CHR 0x96, CHR 0xB0, CHR 0xE4, CHR 0xBF, CHR 0xA1, CHR 0xE7,
     CHR 0x94, CHR 0xA8, CHR 0xE5, CHR 0x8D, CHR 0xA1, CHR 0xE8, CHR 0xB3, CHR 0x87,
     CHR 0xE6, CHR 0x96, CHR 0x99]"

definition msg_not_found :: string where \<comment> \<open>no such card\<close>
  "msg_not_found =
    [CHR 0xE6, CHR 0x89, CHR 0xBE, CHR 0xE4, CHR 0xB8, CHR 0x8D, CHR 0xE5, CHR 0x88,
     CHR 0xB0, CHR 0xE8, CHR 0xA9, CHR 0xB2, CHR 0xE4, CHR 0xBF, CHR 0xA1, CHR 0xE7,
     CHR 0x94, CHR 0xA8, CHR 0xE5, CHR 0x8D, CHR 0xA1]"

definition msg_delete_failed :: string where \<comment> \<open>the card could not be deleted\<close>
  "msg_delete_failed =
    [CHR 0xE7, CHR 0x84, CHR 0xA1, CHR 0xE6, CHR 0xB3, CHR 0x95, CHR 0xE5, CHR 0x88,
     CHR 0xAA, CHR 0xE9, CHR 0x99, CHR 0xA4, CHR 0xE4, CHR 0xBF, CHR 0xA1, CHR 0xE7,
     CHR 0x94, CHR 0xA8, CHR 0xE5, CHR 0x8D, CHR 0xA1, CHR 0xE8, CHR 0xB3, CHR 0x87,
     CHR 0xE6, CHR 0x96, CHR 0x99]"

definition msg_deleted :: string where \<comment> \<open>the card is deleted\<close>
  "msg_deleted =
    [CHR 0xE4, CHR 0xBF, CHR 0xA1, CHR 0xE7, CHR 0x94, CHR 0xA8, CHR 0xE5, CHR 0x8D,
     CHR 0xA1, CHR 0xE5, CHR 0xB7, CHR 0xB2, CHR 0xE5, CHR 0x88, CHR 0xAA, CHR 0xE9,
     CHR 0x99, CHR 0xA4]"

definition msg_need_message :: string where \<comment> \<open>a message is required\<close>
  "msg_need_message =
    [CHR 0xE8, CHR 0xAB, CHR 0x8B, CHR 0xE6, CHR 0x8F, CHR 0x90, CHR 0xE4, CHR 0xBE,
     CHR 0x9B, CHR 0xE8, CHR 0xA8, CHR 0x8A, CHR 0xE6, CHR 0x81, CHR 0xAF, CHR 0x20,
     CHR 0x28, CHR 0x6D, CHR 0x65, CHR 0x73, CHR 0x73, CHR 0x61, CHR 0x67, CHR 0x65,
     CHR 0x29]"

definition null_property_error :: "string \<Rightarrow> string" where
  \<comment> \<open>message of the TypeError raised by reading a property of \<^verbatim>\<open>null\<close>\<close>
  "null_property_error p = ''Cannot read properties of null (reading '' @ [CHR 0x27] @ p @ [CHR 0x27] @ '')''"

section \<open>The two clients\<close>

text \<open>
  A call on the Supabase client builds a query and awaits it. The awaited value is always
  an object \<^verbatim>\<open>{ data, error }\<close>: the client reports failures in \<^verbatim>\<open>error\<close> and does
  not reject. \<^verbatim>\<open>data\<close> is an array of rows or \<^verbatim>\<open>null\<close>.
\<close>

datatype verb = Select | Insert "json list" | Update json | Delete

datatype qfilter = Ilike string string | Eq string string

record query =
  tbl :: string
  verb :: verb
  filters :: "qfilter list"
  order_by :: "(string \<times> bool) option"
  returning :: bool

datatype store_error = StoreError (error_message: string)

record store_reply =
  data :: "json list option"
  error :: "store_error option"

text \<open>The builder calls of the source, in the order the source chains them.\<close>

definition select_from :: "string \<Rightarrow> query" where
  \<comment> \<open>\<^verbatim>\<open>supabase.from(t).select('*')\<close>\<close>
  "select_from t = \<lparr>tbl = t, verb = Select, filters = [], order_by = None, returning = True\<rparr>"

definition insert_into :: "string \<Rightarrow> json list \<Rightarrow> query" where
  \<comment> \<open>\<^verbatim>\<open>supabase.from(t).insert(rows)\<close>\<close>
  "insert_into t rows = \<lparr>tbl = t, verb = Insert rows, filters = [], order_by = None, returning = False\<rparr>"

definition update_in :: "string \<Rightarrow> json \<Rightarrow> query" where
  \<comment> \<open>\<^verbatim>\<open>supabase.from(t).update(values)\<close>\<close>
  "update_in t v = \<lparr>tbl = t, verb = Update v, filters = [], order_by = None, returning = False\<rparr>"

definition delete_from :: "string \<Rightarrow> query" where
  \<comment> \<open>\<^verbatim>\<open>supabase.from(t).delete()\<close>\<close>
  "delete_from t = \<lparr>tbl = t, verb = Delete, filters = [], order_by = None, returning = False\<rparr>"

definition ilike :: "string \<Rightarrow> string \<Rightarrow> query \<Rightarrow> query" where
  "ilike col pat q = q\<lparr>filters := filters q @ [Ilike col pat]\<rparr>"

definition eq :: "string \<Rightarrow> string \<Rightarrow> query \<Rightarrow> query" where
  "eq col v q = q\<lparr>filters := filters q @ [Eq col v]\<rparr>"

definition order :: "string \<Rightarrow> bool \<Rightarrow> query \<Rightarrow> query" where
  \<comment> \<open>\<^verbatim>\<open>.order(col, { ascending: asc })\<close>\<close>
  "order col asc q = q\<lparr>order_by := Some (col, asc)\<rparr>"

definition select_rows :: "query \<Rightarrow> query" where
  \<comment> \<open>\<^verbatim>\<open>.select()\<close> after a write: the written rows come back in \<^verbatim>\<open>data\<close>\<close>
  "select_rows q = q\<lparr>returning := True\<rparr>"

text \<open>
  A thrown JavaScript error: its \<^verbatim>\<open>message\<close> and what \<^verbatim>\<open>JSON.stringify\<close> makes of
  the error object. The completion call \<^verbatim>\<open>model.generateContent(message)\<close> either
  rejects or resolves to a result; \<^verbatim>\<open>response.text()\<close> on that result either throws
  or returns the generated text.
\<close>

datatype exn = Exn (exn_message: string) (exn_json: json)

datatype 'a outcome = Throws exn | Returns 'a

datatype gen_result = GenResult (response_text: "string outcome")

definition type_error :: "string \<Rightarrow> exn" where
  "type_error p = Exn (null_property_error p) (JObj [])"

section \<open>Handlers as programs over the clients\<close>

text \<open>
  A handler is a program: it answers, or it awaits one client call and goes on with the
  value the call resolves to. Nothing else reaches a client, so the calls a request makes
  are exactly the \<open>Await\<close> nodes on the path the replies select.
\<close>

record response =
  status :: nat
  body :: json

datatype prog =
    Respond response
  | AwaitStore query "store_reply \<Rightarrow> prog"
  | AwaitGen string json "gen_result outcome \<Rightarrow> prog"

datatype action = StoreCall query | GenCall string json

text \<open>
  The environment a program runs in: what the store and the provider answer, each with
  its own state \<open>'w\<close>. \<open>run\<close> gives the response, the calls made in order, and the state
  the clients are left in.
\<close>

record 'w env =
  store_exec :: "query \<Rightarrow> 'w \<Rightarrow> store_reply \<times> 'w"
  generate :: "string \<Rightarrow> json \<Rightarrow> 'w \<Rightarrow> gen_result outcome \<times> 'w"

primrec run :: "prog \<Rightarrow> 'w env \<Rightarrow> 'w \<Rightarrow> response \<times> action list \<times> 'w" where
  "run (Respond r) e w = (r, [], w)"
| "run (AwaitStore q k) e w =
     (case store_exec e q w of (rep, w1) \<Rightarrow>
        (case run (k rep) e w1 of (r, tr, w2) \<Rightarrow> (r, StoreCall q # tr, w2)))"
| "run (AwaitGen m x k) e w =
     (case generate e m x w of (res, w1) \<Rightarrow>
        (case run (k res) e w1 of (r, tr, w2) \<Rightarrow> (r, GenCall m x # tr, w2)))"

definition answer :: "response \<times> action list \<times> 'w \<Rightarrow> response" where
  "answer x = fst x"

definition calls :: "response \<times> action list \<times> 'w \<Rightarrow> action list" where
  "calls x = fst (snd x)"

definition final :: "response \<times> action list \<times> 'w \<Rightarrow> 'w" where
  "final x = snd (snd x)"

subsection \<open>POST /api/chat\<close>

text \<open>
  \<^verbatim>\<open>
  const { message } = req.body;
  if (!message) return res.status(400).json({ error: ... });
  const model = genAI.getGenerativeModel({ model: "gemini-2.0-flash"});
  const result = await model.generateContent(message);
  const response = await result.response;
  const aiText = response.text();
  const { data, error } = await supabase.from('ai_logs')
      .insert([{ prompt: message, response: aiText }]);
  res.json({ reply: aiText, saved: !error });
  \<close>
  all inside \<^verbatim>\<open>try\<close>, whose \<^verbatim>\<open>catch\<close> answers 500 with the error's message.
\<close>

definition catch_full :: "exn \<Rightarrow> response" where
  \<comment> \<open>the \<^verbatim>\<open>catch\<close> blocks that also send \<^verbatim>\<open>fullError\<close>\<close>
  "catch_full ex = \<lparr>status = 500, body = JObj
     [(''error'', JStr msg_server_error), (''details'', JStr (exn_message ex)),
      (''fullError'', exn_json ex)]\<rparr>"

definition catch_plain :: "exn \<Rightarrow> response" where
  "catch_plain ex = \<lparr>status = 500, body = JObj
     [(''error'', JStr msg_server_error), (''details'', JStr (exn_message ex))]\<rparr>"

definition log_entry :: "json \<Rightarrow> string \<Rightarrow> json" where
  "log_entry message aiText = JObj [(''prompt'', message), (''response'', JStr aiText)]"

definition post_api_chat :: "json \<Rightarrow> prog" where
  "post_api_chat req_body =
     (case get_prop req_body ''message'' of
        None \<Rightarrow> Respond \<lparr>status = 400, body = JObj [(''error'', JStr msg_need_message)]\<rparr>
      | Some message \<Rightarrow>
          if \<not> truthy message
          then Respond \<lparr>status = 400, body = JObj [(''error'', JStr msg_need_message)]\<rparr>
          else AwaitGen ''gemini-2.0-flash'' message (\<lambda>result.
            case result of
              Throws ex \<Rightarrow> Respond (catch_full ex)
            | Returns res \<Rightarrow>
                (case response_text res of
                   Throws ex \<Rightarrow> Respond (catch_full ex)
                 | Returns aiText \<Rightarrow>
                     AwaitStore (insert_into ''ai_logs'' [log_entry message aiText]) (\<lambda>rep.
                       Respond \<lparr>status = 200, body = JObj
                         [(''reply'', JStr aiText), (''saved'', JBool (error rep = None))]\<rparr>))))"

subsection \<open>GET /api/cards\<close>

text \<open>
  \<^verbatim>\<open>
  const { data, error } = await supabase.from('credit_cards').select('*')
      .order(<issuer column>, { ascending: true });
  if (error) return res.status(500).json({ error: ..., details: error.message });
  console.log(... data.length ...);
  res.json(data);
  \<close>
  Reading \<^verbatim>\<open>data.length\<close> throws when \<^verbatim>\<open>data\<close> is \<^verbatim>\<open>null\<close>; the \<^verbatim>\<open>catch\<close> block
  answers that.
\<close>

definition store_failure :: "string \<Rightarrow> store_error \<Rightarrow> response" where
  "store_failure msg err = \<lparr>status = 500, body = JObj
     [(''error'', JStr msg), (''details'', JStr (error_message err))]\<rparr>"

definition get_api_cards :: prog where
  "get_api_cards =
     AwaitStore (order col_issuer True (select_from ''credit_cards'')) (\<lambda>rep.
       case error rep of
         Some err \<Rightarrow> Respond (store_failure msg_read_failed err)
       | None \<Rightarrow>
           (case data rep of
              None \<Rightarrow> Respond (catch_full (type_error ''length''))
            | Some rows \<Rightarrow> Respond \<lparr>status = 200, body = JArr rows\<rparr>))"

subsection \<open>GET /api/cards/filter\<close>

text \<open>
  \<^verbatim>\<open>
  const { category, region } = req.query;
  let query = supabase.from('credit_cards').select('*');
  if (category) query = query.ilike(<category column>, `%${category}%`);
  if (region)   query = query.ilike(<region column>, `%${region}%`);
  const { data, error } = await query;
  \<close>
  A query parameter is absent (\<open>None\<close>) or given once, as a string.
\<close>

definition add_ilike :: "string \<Rightarrow> string option \<Rightarrow> query \<Rightarrow> query" where
  "add_ilike col param q =
     (case param of
        None \<Rightarrow> q
      | Some p \<Rightarrow> if p \<noteq> [] then ilike col (''%'' @ p @ ''%'') q else q)"

definition get_api_cards_filter :: "string option \<Rightarrow> string option \<Rightarrow> prog" where
  "get_api_cards_filter category region =
     AwaitStore
       (add_ilike col_region region
          (add_ilike col_spend_category category (select_from ''credit_cards''))) (\<lambda>rep.
       case error rep of
         Some err \<Rightarrow> Respond (store_failure msg_read_failed err)
       | None \<Rightarrow>
           (case data rep of
              None \<Rightarrow> Respond (catch_plain (type_error ''length''))
            | Some rows \<Rightarrow> Respond \<lparr>status = 200, body = JArr rows\<rparr>))"

subsection \<open>POST /api/cards\<close>

text \<open>
  \<^verbatim>\<open>
  const requiredFields = [<issuer>, <card name>, <spend category>, <reward value>];
  for (const field of requiredFields) {
      if (!cardData[field]) return res.status(400).json({ error: `<missing>: ${field}` });
  }
  const { data, error } = await supabase.from('credit_cards').insert([cardData]).select();
  if (error) return res.status(500).json(...);
  res.status(201).json({ success: true, data: data[0] });
  \<close>
  \<^verbatim>\<open>data[0]\<close> of an empty array is \<^verbatim>\<open>undefined\<close>, and JSON leaves such a member out.
\<close>

definition requiredFields :: "string list" where
  "requiredFields = [col_issuer, col_card_name, col_spend_category, col_reward_value]"

fun first_missing :: "json \<Rightarrow> string list \<Rightarrow> string option" where
  "first_missing cardData [] = None"
| "first_missing cardData (field # rest) =
     (if \<not> truthy_opt (get_prop cardData field) then Some field
      else first_missing cardData rest)"

definition success_with :: "nat \<Rightarrow> json list \<Rightarrow> response" where
  \<comment> \<open>\<^verbatim>\<open>{ success: true, data: data[0] }\<close>\<close>
  "success_with st rows =
     (case rows of
        [] \<Rightarrow> \<lparr>status = st, body = JObj [(''success'', JBool True)]\<rparr>
      | r # _ \<Rightarrow> \<lparr>status = st, body = JObj [(''success'', JBool True), (''data'', r)]\<rparr>)"

definition post_api_cards :: "json \<Rightarrow> prog" where
  "post_api_cards cardData =
     (case first_missing cardData requiredFields of
        Some field \<Rightarrow>
          Respond \<lparr>status = 400, body = JObj [(''error'', JStr (msg_missing_field @ field))]\<rparr>
      | None \<Rightarrow>
          AwaitStore (select_rows (insert_into ''credit_cards'' [cardData])) (\<lambda>rep.
            case error rep of
              Some err \<Rightarrow> Respond (store_failure msg_create_failed err)
            | None \<Rightarrow>
                (case data rep of
                   None \<Rightarrow> Respond (catch_plain (type_error ''0''))
                 | Some rows \<Rightarrow> Respond (success_with 201 rows))))"

subsection \<open>PUT /api/cards/:id and DELETE /api/cards/:id\<close>

text \<open>
  \<^verbatim>\<open>
  const { data, error } = await supabase.from('credit_cards')
      .update(cardData).eq('id', id).select();        // .delete().eq('id', id).select()
  if (error) return res.status(500).json(...);
  if (data.length === 0) return res.status(404).json({ error: ... });
  res.json({ success: true, data: data[0] });         // { success: true, message: ... }
  \<close>
\<close>

definition not_found :: response where
  "not_found = \<lparr>status = 404, body = JObj [(''error'', JStr msg_not_found)]\<rparr>"

definition put_api_cards_id :: "string \<Rightarrow> json \<Rightarrow> prog" where
  "put_api_cards_id card_id cardData =
     AwaitStore (select_rows (eq ''id'' card_id (update_in ''credit_cards'' cardData))) (\<lambda>rep.
       case error rep of
         Some err \<Rightarrow> Respond (store_failure msg_update_failed err)
       | None \<Rightarrow>
           (case data rep of
              None \<Rightarrow> Respond (catch_plain (type_error ''length''))
            | Some rows \<Rightarrow>
                if length rows = 0 then Respond not_found
                else Respond (success_with 200 rows)))"

definition delete_api_cards_id :: "string \<Rightarrow> prog" where
  "delete_api_cards_id card_id =
     AwaitStore (select_rows (eq ''id'' card_id (delete_from ''credit_cards''))) (\<lambda>rep.
       case error rep of
         Some err \<Rightarrow> Respond (store_failure msg_delete_failed err)
       | None \<Rightarrow>
           (case data rep of
              None \<Rightarrow> Respond (catch_plain (type_error ''length''))
            | Some rows \<Rightarrow>
                if length rows = 0 then Respond not_found
                else Respond \<lparr>status = 200, body = JObj
                  [(''success'', JBool True), (''message'', JStr msg_deleted)]\<rparr>))"

section \<open>A reference row store\<close>

text \<open>
  The row store is a service outside the repository. What a handler's query means there
  is fixed by the service, PostgREST in front of PostgreSQL; the model below follows that
  meaning for the queries the handlers build, over tables held as lists of JSON objects.

  \<^item> \<open>ilike\<close> is SQL's \<^verbatim>\<open>ILIKE\<close>: in the pattern \<^verbatim>\<open>%\<close> stands for any run of
    characters, \<^verbatim>\<open>_\<close> for any one character, a backslash takes the next character
    literally, and any other character stands for itself. A character is one UTF-8
    sequence of the byte string. Two characters match when the database's case folding
    \<open>cfold\<close>, a parameter of the model, makes them equal. PostgREST reads \<^verbatim>\<open>*\<close> in the
    pattern as \<^verbatim>\<open>%\<close>. A column that holds no string matches no pattern.
  \<^item> \<open>eq\<close> compares the column with the given text; identifiers are kept in the
    text form in which a URL carries them.
  \<^item> \<open>order\<close> sorts by a collation \<open>coll\<close> of the column's value, a parameter of the
    model (PostgreSQL sorts by the collation of the database, with \<^verbatim>\<open>NULL\<close> last).
  \<^item> A write with \<open>returning\<close> answers the rows written; a write without it answers
    \<^verbatim>\<open>data: null\<close>. Rows are stored as given: the identifier a real table would
    assign by default is not modelled.
  \<^item> \<open>fault\<close> says which queries the store fails, and with which error; a failed query
    changes nothing.
\<close>

definition ascii_byte :: "char \<Rightarrow> bool" where
  "ascii_byte b = ((of_char b :: nat) < 128)"

definition cont_byte :: "char \<Rightarrow> bool" where
  \<comment> \<open>a byte that continues a UTF-8 sequence\<close>
  "cont_byte b = (128 \<le> (of_char b :: nat) \<and> (of_char b :: nat) < 192)"

function utf8_chars :: "string \<Rightarrow> string list" where
  "utf8_chars [] = []"
| "utf8_chars (b # bs) =
     (if ascii_byte b then [b] # utf8_chars bs
      else (b # takeWhile cont_byte bs) # utf8_chars (dropWhile cont_byte bs))"
  by pat_completeness auto
termination
  by (relation "measure length") (auto simp: less_Suc_eq_le length_dropWhile_le)

definition star_to_percent :: "char \<Rightarrow> char" where
  "star_to_percent c = (if c = CHR ''*'' then CHR ''%'' else c)"

fun like :: "(string \<Rightarrow> string) \<Rightarrow> string list \<Rightarrow> string list \<Rightarrow> bool" where
  "like cfold [] s = (s = [])"
| "like cfold (p # ps) s =
     (if p = ''%'' then
        (like cfold ps s \<or> (case s of [] \<Rightarrow> False | c # cs \<Rightarrow> like cfold (p # ps) cs))
      else if p = ''_'' then
        (case s of [] \<Rightarrow> False | c # cs \<Rightarrow> like cfold ps cs)
      else if p = [CHR 0x5C] then
        (case ps of
           [] \<Rightarrow> False
         | q # qs \<Rightarrow> (case s of [] \<Rightarrow> False | c # cs \<Rightarrow> cfold c = cfold q \<and> like cfold qs cs))
      else
        (case s of [] \<Rightarrow> False | c # cs \<Rightarrow> cfold c = cfold p \<and> like cfold ps cs))"

definition ilike_match :: "(string \<Rightarrow> string) \<Rightarrow> string \<Rightarrow> string \<Rightarrow> bool" where
  "ilike_match cfold pat s =
     like cfold (utf8_chars (map star_to_percent pat)) (utf8_chars s)"

fun lower_char :: "char \<Rightarrow> char" where
  \<comment> \<open>the letters A to Z (65 to 90) go to a to z: bit 5, worth 32, is set\<close>
  "lower_char (Char b0 b1 b2 b3 b4 b5 b6 b7) =
     (if 65 \<le> (of_char (Char b0 b1 b2 b3 b4 b5 b6 b7) :: nat) \<and>
         (of_char (Char b0 b1 b2 b3 b4 b5 b6 b7) :: nat) \<le> 90
      then Char b0 b1 b2 b3 b4 True b6 b7
      else Char b0 b1 b2 b3 b4 b5 b6 b7)"

definition ascii_fold :: "string \<Rightarrow> string" where
  \<comment> \<open>the folding of a database whose character type is \<^verbatim>\<open>C\<close>: only A to Z have a lower case\<close>
  "ascii_fold c = map lower_char c"

fun matches :: "(string \<Rightarrow> string) \<Rightarrow> qfilter \<Rightarrow> json \<Rightarrow> bool" where
  "matches cfold (Ilike col pat) r =
     (case get_prop r col of Some (JStr s) \<Rightarrow> ilike_match cfold pat s | _ \<Rightarrow> False)"
| "matches cfold (Eq col v) r = (get_prop r col = Some (JStr v))"

definition selects :: "(string \<Rightarrow> string) \<Rightarrow> query \<Rightarrow> json \<Rightarrow> bool" where
  \<comment> \<open>filters of one query are conjunctive\<close>
  "selects cfold q r = list_all (\<lambda>f. matches cfold f r) (filters q)"

fun merge_row :: "json \<Rightarrow> json \<Rightarrow> json" where
  "merge_row (JObj row) (JObj upd) =
     JObj (map (\<lambda>(k, v). (k, case map_of upd k of Some v' \<Rightarrow> v' | None \<Rightarrow> v)) row
           @ filter (\<lambda>(k, v). map_of row k = None) upd)"
| "merge_row r u = r"

definition ordered :: "(json option \<Rightarrow> 'k::linorder) \<Rightarrow> (string \<times> bool) option \<Rightarrow> json list \<Rightarrow> json list" where
  "ordered coll ob rows =
     (case ob of
        None \<Rightarrow> rows
      | Some (col, asc) \<Rightarrow>
          if asc then sort_key (\<lambda>r. coll (get_prop r col)) rows
          else rev (sort_key (\<lambda>r. coll (get_prop r col)) rows))"

record db =
  tables :: "string \<Rightarrow> json list option"
  fault :: "query \<Rightarrow> store_error option"

definition no_such_table :: store_error where
  "no_such_table = StoreError ''relation does not exist''"

definition answered :: "bool \<Rightarrow> json list \<Rightarrow> store_reply" where
  "answered ret rows = \<lparr>data = (if ret then Some rows else None), error = None\<rparr>"

definition failed :: "store_error \<Rightarrow> store_reply" where
  "failed err = \<lparr>data = None, error = Some err\<rparr>"

definition ref_exec_with ::
  "(string \<Rightarrow> string) \<Rightarrow> (json option \<Rightarrow> 'k::linorder) \<Rightarrow> query \<Rightarrow> db \<Rightarrow> store_reply \<times> db" where
  "ref_exec_with cfold coll q d =
     (case fault d q of
        Some err \<Rightarrow> (failed err, d)
      | None \<Rightarrow>
          (case tables d (tbl q) of
             None \<Rightarrow> (failed no_such_table, d)
           | Some rows \<Rightarrow>
               (case verb q of
                  Select \<Rightarrow>
                    (answered True (ordered coll (order_by q) (filter (selects cfold q) rows)), d)
                | Insert new \<Rightarrow>
                    (answered (returning q) new,
                     d\<lparr>tables := (tables d)(tbl q \<mapsto> rows @ new)\<rparr>)
                | Update v \<Rightarrow>
                    (answered (returning q)
                       (map (\<lambda>r. merge_row r v) (filter (selects cfold q) rows)),
                     d\<lparr>tables := (tables d)(tbl q \<mapsto>
                          map (\<lambda>r. if selects cfold q r then merge_row r v else r) rows)\<rparr>)
                | Delete \<Rightarrow>
                    (answered (returning q) (filter (selects cfold q) rows),
                     d\<lparr>tables := (tables d)(tbl q \<mapsto>
                          filter (\<lambda>r. \<not> selects cfold q r) rows)\<rparr>))))"

definition ref_env_with ::
  "(string \<Rightarrow> string) \<Rightarrow> (json option \<Rightarrow> 'k::linorder) \<Rightarrow> (json \<Rightarrow> gen_result outcome) \<Rightarrow> db env" where
  \<comment> \<open>the reference store, and a provider that answers by the function \<open>llm\<close>\<close>
  "ref_env_with cfold coll llm =
     \<lparr>store_exec = ref_exec_with cfold coll, generate = (\<lambda>m x d. (llm x, d))\<rparr>"

text \<open>
  Of the handlers only the filter builds a pattern, so the folding bears on no other
  request. \<open>ref_exec\<close> and \<open>ref_env\<close> are the store of a database that folds the letters
  A to Z only.
\<close>

definition ref_exec :: "(json option \<Rightarrow> 'k::linorder) \<Rightarrow> query \<Rightarrow> db \<Rightarrow> store_reply \<times> db" where
  "ref_exec coll q d = ref_exec_with ascii_fold coll q d"

definition ref_env :: "(json option \<Rightarrow> 'k::linorder) \<Rightarrow> (json \<Rightarrow> gen_result outcome) \<Rightarrow> db env" where
  "ref_env coll llm = \<lparr>store_exec = ref_exec coll, generate = (\<lambda>m x d. (llm x, d))\<rparr>"

definition byte_collation :: "json option \<Rightarrow> nat list" where
  \<comment> \<open>strings in byte order, every other value (and no value) after all strings\<close>
  "byte_collation v = (case v of Some (JStr s) \<Rightarrow> 0 # map of_char s | _ \<Rightarrow> [1])"

section \<open>Sample requests, stores and providers\<close>

text \<open>Concrete data on which the theorems below are instantiated.\<close>

definition hi_request :: json where
  "hi_request = JObj [(''message'', JStr ''hi'')]"

definition llm_hello :: "json \<Rightarrow> gen_result outcome" where
  "llm_hello x = Returns (GenResult (Returns ''hello''))"

definition llm_empty :: "json \<Rightarrow> gen_result outcome" where
  \<comment> \<open>a provider whose completion is the empty text\<close>
  "llm_empty x = Returns (GenResult (Returns []))"

definition llm_down :: "json \<Rightarrow> gen_result outcome" where
  \<comment> \<open>a provider whose call rejects\<close>
  "llm_down x = Throws (Exn ''fetch failed'' (JObj []))"

definition no_fault :: "query \<Rightarrow> store_error option" where
  "no_fault q = None"

definition logs_down :: "query \<Rightarrow> store_error option" where
  \<comment> \<open>every query on the log table fails\<close>
  "logs_down q = (if tbl q = ''ai_logs'' then Some (StoreError ''permission denied'') else None)"

definition cards_down :: "query \<Rightarrow> store_error option" where
  \<comment> \<open>every query on the card table fails\<close>
  "cards_down q = (if tbl q = ''credit_cards'' then Some (StoreError ''connection refused'') else None)"

definition card_hsbc :: json where
  "card_hsbc = JObj
     [(''id'', JStr ''1''), (col_issuer, JStr ''HSBC''), (col_card_name, JStr ''Red''),
      (col_spend_category, JStr ''Dining''), (col_reward_value, JNum 4),
      (col_region, JStr ''local'')]"

definition card_citi :: json where
  "card_citi = JObj
     [(''id'', JStr ''2''), (col_issuer, JStr ''Citi''), (col_card_name, JStr ''Cash Back''),
      (col_spend_category, JStr ''fine dining''), (col_reward_value, JStr ''2%''),
      (col_region, JStr ''overseas'')]"

definition card_new :: json where
  \<comment> \<open>the body of a create request with all four required fields\<close>
  "card_new = JObj
     [(col_issuer, JStr ''DBS''), (col_card_name, JStr ''Eminent''),
      (col_spend_category, JStr ''online''), (col_reward_value, JNum 5)]"

definition demo_db :: "(query \<Rightarrow> store_error option) \<Rightarrow> db" where
  "demo_db f = \<lparr>tables = [''credit_cards'' \<mapsto> [card_hsbc, card_citi], ''ai_logs'' \<mapsto> []],
                 fault = f\<rparr>"

definition is_store_call :: "action \<Rightarrow> bool" where
  "is_store_call a = (case a of StoreCall q \<Rightarrow> True | GenCall m x \<Rightarrow> False)"

section \<open>Notions the claims are stated with\<close>

text \<open>
  What the specification calls a case-insensitive substring match: the characters of the
  parameter, case folded, are a contiguous part of the characters of the stored string,
  case folded. Which letters are one another's case is the database's matter, so the
  folding is a parameter here as well.
\<close>

definition contains_ci :: "(string \<Rightarrow> string) \<Rightarrow> string \<Rightarrow> string \<Rightarrow> bool" where
  "contains_ci cfold s p = sublist (map cfold (utf8_chars p)) (map cfold (utf8_chars s))"

text \<open>
  A character that a pattern takes literally, and a parameter free of pattern
  characters: none of its bytes is \<^verbatim>\<open>%\<close>, \<^verbatim>\<open>_\<close>, the backslash or \<^verbatim>\<open>*\<close>.
\<close>

definition literal :: "string \<Rightarrow> bool" where
  "literal c = (c \<noteq> ''%'' \<and> c \<noteq> ''_'' \<and> c \<noteq> [CHR 0x5C])"

definition plain :: "string \<Rightarrow> bool" where
  "plain p =
     list_all (\<lambda>b. b \<noteq> CHR ''%'' \<and> b \<noteq> CHR ''_'' \<and> b \<noteq> CHR 0x5C \<and> b \<noteq> CHR ''*'') p"

text \<open>
  The constraint one query parameter puts on a record: none when the parameter is absent
  or empty; the case-insensitive substring match against the column when the parameter
  is free of pattern characters; and otherwise the match of the column against the
  parameter read as a pattern between two \<^verbatim>\<open>%\<close>.
\<close>

fun meets :: "(string \<Rightarrow> string) \<Rightarrow> string option \<Rightarrow> string \<Rightarrow> json \<Rightarrow> bool" where
  "meets cfold None col r = True"
| "meets cfold (Some p) col r =
     (p = [] \<or>
      (case get_prop r col of
         Some (JStr s) \<Rightarrow>
           if plain p then contains_ci cfold s p else ilike_match cfold (''%'' @ p @ ''%'') s
       | _ \<Rightarrow> False))"

text \<open>A request body with one property taken away: the same request with that field absent.\<close>

fun drop_prop :: "string \<Rightarrow> json \<Rightarrow> json" where
  "drop_prop f (JObj kvs) = JObj (filter (\<lambda>kv. fst kv \<noteq> f) kvs)"
| "drop_prop f v = v"

section \<open>The chat gateway\<close>

text \<open>
  Claim C1. For every chat request whose completion call succeeds but whose log write to
  the store fails, the response is HTTP 200 with the generated reply text and
  \<open>saved\<close> false: the failed log write never turns the response into an error.
  The completion call succeeds when \<open>generateContent\<close> resolves and \<open>text()\<close> returns;
  the log write fails when the store's reply carries an error.
\<close>

theorem chat_reply_survives_log_failure:
  assumes "get_prop req_body ''message'' = Some m" and "truthy m"
    and "generate e ''gemini-2.0-flash'' m w = (Returns (GenResult (Returns aiText)), w1)"
    and "store_exec e (insert_into ''ai_logs'' [log_entry m aiText]) w1 = (rep, w2)"
    and "error rep \<noteq> None"
  shows "answer (run (post_api_chat req_body) e w) =
           \<lparr>status = 200, body = JObj [(''reply'', JStr aiText), (''saved'', JBool False)]\<rparr>"
  using assms by (simp add: post_api_chat_def answer_def)

theorem chat_reply_survives_log_failure_witness:
  "answer (run (post_api_chat hi_request) (ref_env byte_collation llm_hello) (demo_db logs_down)) =
     \<lparr>status = 200, body = JObj [(''reply'', JStr ''hello''), (''saved'', JBool False)]\<rparr>"
  using chat_reply_survives_log_failure [of hi_request "JStr ''hi''"
      "ref_env byte_collation llm_hello" "demo_db logs_down" "''hello''" "demo_db logs_down"
      "failed (StoreError ''permission denied'')" "demo_db logs_down"]
  by (simp add: hi_request_def ref_env_def llm_hello_def ref_exec_def ref_exec_with_def demo_db_def logs_down_def
      insert_into_def failed_def)

text \<open>
  Claim C2 says that a log entry is written after every chat request, also when the
  completion call fails. The handler does not do that: with a provider whose call
  rejects, the request makes no store call and the log table stays empty.
\<close>

theorem chat_log_skipped_when_completion_fails:
  "filter is_store_call
     (calls (run (post_api_chat hi_request) (ref_env byte_collation llm_down) (demo_db no_fault))) = []
   \<and> tables (final (run (post_api_chat hi_request) (ref_env byte_collation llm_down) (demo_db no_fault)))
       ''ai_logs'' = Some []"
  by (simp add: post_api_chat_def hi_request_def ref_env_def llm_down_def calls_def final_def
      is_store_call_def demo_db_def)

text \<open>
  Claim C2, amended. A chat request makes a store call exactly when its message is truthy
  and the completion call returns a text, and that call is the insert of the entry
  \<open>{prompt: message, response: text}\<close> into the log table. A request that fails
  validation, or whose completion call fails, attempts no log write.
\<close>

theorem chat_log_written_iff:
  "StoreCall q \<in> set (calls (run (post_api_chat req_body) e w)) \<longleftrightarrow>
     (\<exists>m aiText w1. get_prop req_body ''message'' = Some m \<and> truthy m \<and>
        generate e ''gemini-2.0-flash'' m w = (Returns (GenResult (Returns aiText)), w1) \<and>
        q = insert_into ''ai_logs'' [log_entry m aiText])"
  by (auto simp: post_api_chat_def calls_def split: option.splits prod.splits outcome.splits)
    (metis gen_result.collapse)

theorem chat_log_written_iff_witness:
  "StoreCall (insert_into ''ai_logs'' [log_entry (JStr ''hi'') ''hello''])
     \<in> set (calls (run (post_api_chat hi_request) (ref_env byte_collation llm_hello) (demo_db no_fault)))
   \<and> StoreCall (insert_into ''ai_logs'' [log_entry (JStr ''hi'') ''hello''])
     \<notin> set (calls (run (post_api_chat hi_request) (ref_env byte_collation llm_down) (demo_db no_fault)))"
  using chat_log_written_iff [of "insert_into ''ai_logs'' [log_entry (JStr ''hi'') ''hello'']"
      hi_request "ref_env byte_collation llm_hello" "demo_db no_fault"]
    chat_log_written_iff [of "insert_into ''ai_logs'' [log_entry (JStr ''hi'') ''hello'']"
      hi_request "ref_env byte_collation llm_down" "demo_db no_fault"]
  by (simp add: hi_request_def ref_env_def llm_hello_def llm_down_def)

text \<open>
  Claim C4. For every chat request whose \<open>message\<close> is absent or the empty string, the
  response is HTTP 400, no call reaches the completion provider and no log entry is
  written: the request makes no call at all and leaves the clients' state as it was.
\<close>

theorem chat_rejects_missing_message:
  assumes "get_prop req_body ''message'' = None \<or> get_prop req_body ''message'' = Some (JStr [])"
  shows "run (post_api_chat req_body) e w =
           (\<lparr>status = 400, body = JObj [(''error'', JStr msg_need_message)]\<rparr>, [], w)"
  using assms by (auto simp: post_api_chat_def)

theorem chat_rejects_missing_message_witness:
  "run (post_api_chat (JObj [])) (ref_env byte_collation llm_hello) (demo_db no_fault) =
     (\<lparr>status = 400, body = JObj [(''error'', JStr msg_need_message)]\<rparr>, [], demo_db no_fault)
   \<and> run (post_api_chat (JObj [(''message'', JStr [])])) (ref_env byte_collation llm_hello)
         (demo_db no_fault) =
     (\<lparr>status = 400, body = JObj [(''error'', JStr msg_need_message)]\<rparr>, [], demo_db no_fault)"
  using chat_rejects_missing_message [of "JObj []" "ref_env byte_collation llm_hello"
      "demo_db no_fault"]
    chat_rejects_missing_message [of "JObj [(''message'', JStr [])]"
      "ref_env byte_collation llm_hello" "demo_db no_fault"]
  by simp

text \<open>
  Claim C5 counts a provider that returns an empty completion among the failures that
  surface as HTTP 500 without a log write. The handler never looks at the text it gets:
  an empty completion that \<open>text()\<close> returns is logged and answered with status 200 and
  an empty reply.
\<close>

theorem chat_empty_completion_is_answered:
  "answer (run (post_api_chat hi_request) (ref_env byte_collation llm_empty) (demo_db no_fault)) =
     \<lparr>status = 200, body = JObj [(''reply'', JStr []), (''saved'', JBool True)]\<rparr>
   \<and> calls (run (post_api_chat hi_request) (ref_env byte_collation llm_empty) (demo_db no_fault)) =
       [GenCall ''gemini-2.0-flash'' (JStr ''hi''),
        StoreCall (insert_into ''ai_logs'' [log_entry (JStr ''hi'') []])]
   \<and> tables (final (run (post_api_chat hi_request) (ref_env byte_collation llm_empty)
        (demo_db no_fault))) ''ai_logs'' = Some [log_entry (JStr ''hi'') []]"
  by (simp add: post_api_chat_def hi_request_def ref_env_def llm_empty_def calls_def answer_def
      final_def ref_exec_def ref_exec_with_def demo_db_def no_fault_def insert_into_def answered_def)

text \<open>
  Claim C5, amended. Every failure of the completion step that is raised (the call
  \<open>generateContent\<close> rejects, or \<open>text()\<close> throws) is caught and surfaces as HTTP 500
  with the error's message as \<open>details\<close>, and the log write is not attempted: the
  completion call is the only call the request makes. An empty completion that \<open>text()\<close>
  returns is not treated as a failure: the entry with the empty response is sent to the
  log table, and the request is answered with status 200, an empty reply and \<open>saved\<close>
  telling whether the store took the entry.
\<close>

theorem chat_completion_failure_or_empty_text:
  assumes "get_prop req_body ''message'' = Some m" and "truthy m"
    and "generate e ''gemini-2.0-flash'' m w = (res, w1)"
  shows "(res = Throws ex \<or> res = Returns (GenResult (Throws ex)) \<longrightarrow>
          run (post_api_chat req_body) e w =
            (\<lparr>status = 500, body = JObj
                [(''error'', JStr msg_server_error), (''details'', JStr (exn_message ex)),
                 (''fullError'', exn_json ex)]\<rparr>,
             [GenCall ''gemini-2.0-flash'' m], w1))
         \<and> (res = Returns (GenResult (Returns [])) \<longrightarrow>
          store_exec e (insert_into ''ai_logs'' [log_entry m []]) w1 = (rep, w2) \<longrightarrow>
          run (post_api_chat req_body) e w =
            (\<lparr>status = 200, body = JObj
                [(''reply'', JStr []), (''saved'', JBool (error rep = None))]\<rparr>,
             [GenCall ''gemini-2.0-flash'' m,
              StoreCall (insert_into ''ai_logs'' [log_entry m []])], w2))"
  using assms by (auto simp: post_api_chat_def catch_full_def)

theorem chat_completion_failure_or_empty_text_witness:
  "run (post_api_chat hi_request) (ref_env byte_collation llm_down) (demo_db no_fault) =
     (\<lparr>status = 500, body = JObj
         [(''error'', JStr msg_server_error), (''details'', JStr ''fetch failed''),
          (''fullError'', JObj [])]\<rparr>,
      [GenCall ''gemini-2.0-flash'' (JStr ''hi'')], demo_db no_fault)
   \<and> run (post_api_chat hi_request) (ref_env byte_collation llm_empty) (demo_db logs_down) =
     (\<lparr>status = 200, body = JObj [(''reply'', JStr []), (''saved'', JBool False)]\<rparr>,
      [GenCall ''gemini-2.0-flash'' (JStr ''hi''),
       StoreCall (insert_into ''ai_logs'' [log_entry (JStr ''hi'') []])], demo_db logs_down)"
  using chat_completion_failure_or_empty_text [of hi_request "JStr ''hi''"
      "ref_env byte_collation llm_down" "demo_db no_fault"
      "Throws (Exn ''fetch failed'' (JObj []))" "demo_db no_fault" "Exn ''fetch failed'' (JObj [])"]
    chat_completion_failure_or_empty_text [of hi_request "JStr ''hi''"
      "ref_env byte_collation llm_empty" "demo_db logs_down"
      "Returns (GenResult (Returns []))" "demo_db logs_down" "Exn [] JNull"
      "failed (StoreError ''permission denied'')" "demo_db logs_down"]
  by (simp add: hi_request_def ref_env_def llm_down_def llm_empty_def ref_exec_def ref_exec_with_def demo_db_def
      logs_down_def insert_into_def failed_def)

section \<open>The card registry gateway\<close>

subsection \<open>Creating a card\<close>

lemma first_missing_None:
  "first_missing c fs = None \<longleftrightarrow> (\<forall>f \<in> set fs. truthy_opt (get_prop c f))"
  by (induction fs) auto

lemma first_missing_append:
  "(\<forall>g \<in> set pre. truthy_opt (get_prop c g)) \<Longrightarrow>
     first_missing c (pre @ fs) = first_missing c fs"
  by (induction pre) auto

lemma first_missing_cong:
  "(\<And>g. g \<in> set fs \<Longrightarrow> truthy_opt (get_prop c g) = truthy_opt (get_prop c' g)) \<Longrightarrow>
     first_missing c fs = first_missing c' fs"
  by (induction fs) auto

lemma first_missing_SomeD:
  "first_missing c fs = Some f \<Longrightarrow>
     \<exists>pre post. fs = pre @ f # post \<and> (\<forall>g \<in> set pre. truthy_opt (get_prop c g)) \<and>
        \<not> truthy_opt (get_prop c f)"
proof (induction fs)
  case Nil
  then show ?case by simp
next
  case (Cons a fs)
  show ?case
  proof (cases "truthy_opt (get_prop c a)")
    case True
    with Cons obtain pre post where "fs = pre @ f # post"
      and "\<forall>g \<in> set pre. truthy_opt (get_prop c g)" and nf: "\<not> truthy_opt (get_prop c f)"
      by auto
    with True have "a # fs = (a # pre) @ f # post"
      and "\<forall>g \<in> set (a # pre). truthy_opt (get_prop c g)"
      by simp_all
    with nf show ?thesis by blast
  next
    case False
    with Cons.prems have "a # fs = [] @ f # fs" and "\<not> truthy_opt (get_prop c f)"
      by simp_all
    then show ?thesis by fastforce
  qed
qed

lemma map_of_drop:
  "map_of (filter (\<lambda>kv. fst kv \<noteq> f) kvs) g = (if g = f then None else map_of kvs g)"
  by (induction kvs) auto

lemma get_prop_drop_prop:
  "get_prop (drop_prop f c) g = (if g = f then None else get_prop c g)"
  by (cases c) (simp_all add: map_of_drop)

text \<open>
  Claim C3 says that a create request with all four required fields present and non-empty
  is answered 201 with the inserted record. That also takes the store: when the insert
  reports an error the answer is 500, and nothing is persisted.
\<close>

theorem create_card_all_truthy_store_fails:
  "first_missing card_new requiredFields = None
   \<and> status (answer (run (post_api_cards card_new) (ref_env byte_collation llm_hello)
        (demo_db cards_down))) = 500
   \<and> tables (final (run (post_api_cards card_new) (ref_env byte_collation llm_hello)
        (demo_db cards_down))) ''credit_cards'' = Some [card_hsbc, card_citi]"
  by (simp add: post_api_cards_def card_new_def requiredFields_def col_issuer_def col_card_name_def
      col_spend_category_def col_reward_value_def ref_env_def ref_exec_def ref_exec_with_def demo_db_def cards_down_def
      answer_def final_def select_rows_def insert_into_def failed_def store_failure_def)

text \<open>
  Claim C3, amended. For every create request in which at least one of the four required
  fields is absent, the response is HTTP 400 naming the first required field, in the order
  issuer, card name, spend category, reward value, that is absent or falsy; the request
  makes no call to the store and persists nothing. When all four are present and truthy
  and the store's insert reports no error and returns the inserted row, the response is
  HTTP 201 containing that row.
\<close>

theorem create_card_validation:
  "((\<exists>f \<in> set requiredFields. get_prop cardData f = None) \<longrightarrow>
      (\<exists>pre field post. requiredFields = pre @ field # post \<and>
         (\<forall>g \<in> set pre. truthy_opt (get_prop cardData g)) \<and>
         \<not> truthy_opt (get_prop cardData field) \<and>
         run (post_api_cards cardData) e w =
           (\<lparr>status = 400, body = JObj [(''error'', JStr (msg_missing_field @ field))]\<rparr>, [], w)))
   \<and> ((\<forall>f \<in> set requiredFields. truthy_opt (get_prop cardData f)) \<longrightarrow>
        store_exec e (select_rows (insert_into ''credit_cards'' [cardData])) w =
          (\<lparr>data = Some (r # rs), error = None\<rparr>, w1) \<longrightarrow>
        run (post_api_cards cardData) e w =
          (\<lparr>status = 201, body = JObj [(''success'', JBool True), (''data'', r)]\<rparr>,
           [StoreCall (select_rows (insert_into ''credit_cards'' [cardData]))], w1))"
proof (intro conjI impI)
  assume "\<exists>f \<in> set requiredFields. get_prop cardData f = None"
  then obtain f where "f \<in> set requiredFields" and "\<not> truthy_opt (get_prop cardData f)"
    by force
  then have "first_missing cardData requiredFields \<noteq> None"
    unfolding first_missing_None by blast
  then obtain field where fm: "first_missing cardData requiredFields = Some field"
    by blast
  from first_missing_SomeD [OF fm] obtain pre post where "requiredFields = pre @ field # post"
    and "\<forall>g \<in> set pre. truthy_opt (get_prop cardData g)"
    and "\<not> truthy_opt (get_prop cardData field)"
    by blast
  moreover from fm have "run (post_api_cards cardData) e w =
      (\<lparr>status = 400, body = JObj [(''error'', JStr (msg_missing_field @ field))]\<rparr>, [], w)"
    by (simp add: post_api_cards_def)
  ultimately show "\<exists>pre field post. requiredFields = pre @ field # post \<and>
      (\<forall>g \<in> set pre. truthy_opt (get_prop cardData g)) \<and>
      \<not> truthy_opt (get_prop cardData field) \<and>
      run (post_api_cards cardData) e w =
        (\<lparr>status = 400, body = JObj [(''error'', JStr (msg_missing_field @ field))]\<rparr>, [], w)"
    by blast
next
  assume "\<forall>f \<in> set requiredFields. truthy_opt (get_prop cardData f)"
    and "store_exec e (select_rows (insert_into ''credit_cards'' [cardData])) w =
           (\<lparr>data = Some (r # rs), error = None\<rparr>, w1)"
  then show "run (post_api_cards cardData) e w =
      (\<lparr>status = 201, body = JObj [(''success'', JBool True), (''data'', r)]\<rparr>,
       [StoreCall (select_rows (insert_into ''credit_cards'' [cardData]))], w1)"
    by (simp add: post_api_cards_def first_missing_None [symmetric] success_with_def)
qed

theorem create_card_validation_witness:
  "run (post_api_cards (JObj [(col_issuer, JStr ''DBS'')])) (ref_env byte_collation llm_hello)
      (demo_db no_fault) =
     (\<lparr>status = 400, body = JObj [(''error'', JStr (msg_missing_field @ col_card_name))]\<rparr>, [],
      demo_db no_fault)
   \<and> answer (run (post_api_cards card_new) (ref_env byte_collation llm_hello) (demo_db no_fault)) =
       \<lparr>status = 201, body = JObj [(''success'', JBool True), (''data'', card_new)]\<rparr>"
  using create_card_validation [of "JObj [(col_issuer, JStr ''DBS'')]"
      "ref_env byte_collation llm_hello" "demo_db no_fault"]
    create_card_validation [of card_new "ref_env byte_collation llm_hello" "demo_db no_fault"
      card_new "[]"
      "snd (ref_exec byte_collation (select_rows (insert_into ''credit_cards'' [card_new]))
         (demo_db no_fault))"]
  by (simp add: post_api_cards_def card_new_def requiredFields_def col_issuer_def col_card_name_def
      col_spend_category_def col_reward_value_def ref_env_def ref_exec_def ref_exec_with_def demo_db_def no_fault_def
      answer_def select_rows_def insert_into_def answered_def success_with_def)

text \<open>
  Claim C9 says that a required field that is present with a falsy value makes the
  response name that very field. The check names the first required field that fails it:
  with the issuer absent and the card name empty, the response names the issuer.
\<close>

theorem create_card_names_earlier_field:
  "get_prop (JObj [(col_card_name, JStr [])]) col_card_name = Some (JStr [])
   \<and> answer (run (post_api_cards (JObj [(col_card_name, JStr [])]))
        (ref_env byte_collation llm_hello) (demo_db no_fault)) =
       \<lparr>status = 400, body = JObj [(''error'', JStr (msg_missing_field @ col_issuer))]\<rparr>
   \<and> col_issuer \<noteq> col_card_name"
  by (simp add: post_api_cards_def requiredFields_def col_issuer_def col_card_name_def answer_def)

text \<open>
  Claim C9, amended. For every create request in which a required field is present with
  a falsy value (the empty string, the number 0, false or null), the request is rejected
  with HTTP 400 and no store call, exactly as if that field were absent: the response is
  the one the same request gets without the field. The response names the first required
  field that is absent or falsy, which is that field when every required field before it
  is truthy. Presence alone does not satisfy the check.
\<close>

theorem create_card_falsy_is_missing:
  assumes "f \<in> set requiredFields" and "get_prop cardData f = Some v"
    and "v = JStr [] \<or> v = JNum 0 \<or> v = JBool False \<or> v = JNull"
  shows "(\<exists>field. run (post_api_cards cardData) e w =
            (\<lparr>status = 400, body = JObj [(''error'', JStr (msg_missing_field @ field))]\<rparr>, [], w))
         \<and> run (post_api_cards cardData) e w = run (post_api_cards (drop_prop f cardData)) e w
         \<and> (\<forall>pre post. requiredFields = pre @ f # post \<and>
               (\<forall>g \<in> set pre. truthy_opt (get_prop cardData g)) \<longrightarrow>
             run (post_api_cards cardData) e w =
               (\<lparr>status = 400, body = JObj [(''error'', JStr (msg_missing_field @ f))]\<rparr>, [], w))"
proof (intro conjI allI impI)
  from assms have nt: "\<not> truthy_opt (get_prop cardData f)"
    by auto
  with assms(1) have "first_missing cardData requiredFields \<noteq> None"
    unfolding first_missing_None by blast
  then obtain field where fm: "first_missing cardData requiredFields = Some field"
    by blast
  then have "run (post_api_cards cardData) e w =
      (\<lparr>status = 400, body = JObj [(''error'', JStr (msg_missing_field @ field))]\<rparr>, [], w)"
    by (simp add: post_api_cards_def)
  then show "\<exists>field. run (post_api_cards cardData) e w =
      (\<lparr>status = 400, body = JObj [(''error'', JStr (msg_missing_field @ field))]\<rparr>, [], w)" ..
  have "first_missing (drop_prop f cardData) requiredFields = first_missing cardData requiredFields"
    by (rule first_missing_cong) (use nt in \<open>simp add: get_prop_drop_prop\<close>)
  with fm show "run (post_api_cards cardData) e w = run (post_api_cards (drop_prop f cardData)) e w"
    by (simp add: post_api_cards_def)
  fix pre post
  assume "requiredFields = pre @ f # post \<and> (\<forall>g \<in> set pre. truthy_opt (get_prop cardData g))"
  then have rf: "requiredFields = pre @ f # post"
    and pre: "\<forall>g \<in> set pre. truthy_opt (get_prop cardData g)"
    by simp_all
  from pre nt have "first_missing cardData (pre @ f # post) = Some f"
    by (simp add: first_missing_append)
  then have "first_missing cardData requiredFields = Some f"
    unfolding rf .
  then show "run (post_api_cards cardData) e w =
      (\<lparr>status = 400, body = JObj [(''error'', JStr (msg_missing_field @ f))]\<rparr>, [], w)"
    by (simp add: post_api_cards_def)
qed

theorem create_card_falsy_is_missing_witness:
  "run (post_api_cards (JObj [(col_issuer, JStr ''DBS''), (col_card_name, JNum 0)]))
      (ref_env byte_collation llm_hello) (demo_db no_fault) =
     (\<lparr>status = 400, body = JObj [(''error'', JStr (msg_missing_field @ col_card_name))]\<rparr>, [],
      demo_db no_fault)
   \<and> run (post_api_cards (JObj [(col_issuer, JStr ''DBS''), (col_card_name, JNum 0)]))
      (ref_env byte_collation llm_hello) (demo_db no_fault) =
     run (post_api_cards (JObj [(col_issuer, JStr ''DBS'')]))
      (ref_env byte_collation llm_hello) (demo_db no_fault)"
  using create_card_falsy_is_missing [of col_card_name
      "JObj [(col_issuer, JStr ''DBS''), (col_card_name, JNum 0)]" "JNum 0"
      "ref_env byte_collation llm_hello" "demo_db no_fault"]
  by (simp add: post_api_cards_def requiredFields_def col_issuer_def col_card_name_def
      col_spend_category_def col_reward_value_def)

subsection \<open>Updating and deleting a card\<close>

text \<open>
  Claim C6. For every update or delete request whose id matches no record in the store,
  and whose store call reports no error, the response is HTTP 404 and the store's state
  is unchanged. The store is the reference store; an id matches a record when the
  record's \<open>id\<close> column holds it.
\<close>

theorem missing_id_is_404:
  assumes "tables d ''credit_cards'' = Some rows"
    and "\<forall>r \<in> set rows. get_prop r ''id'' \<noteq> Some (JStr card_id)"
  shows "(fault d (select_rows (eq ''id'' card_id (update_in ''credit_cards'' cardData))) = None \<longrightarrow>
          run (put_api_cards_id card_id cardData) (ref_env coll llm) d =
            (\<lparr>status = 404, body = JObj [(''error'', JStr msg_not_found)]\<rparr>,
             [StoreCall (select_rows (eq ''id'' card_id (update_in ''credit_cards'' cardData)))], d))
         \<and> (fault d (select_rows (eq ''id'' card_id (delete_from ''credit_cards''))) = None \<longrightarrow>
          run (delete_api_cards_id card_id) (ref_env coll llm) d =
            (\<lparr>status = 404, body = JObj [(''error'', JStr msg_not_found)]\<rparr>,
             [StoreCall (select_rows (eq ''id'' card_id (delete_from ''credit_cards'')))], d))"
proof (intro conjI impI)
  let ?qu = "select_rows (eq ''id'' card_id (update_in ''credit_cards'' cardData))"
  let ?qd = "select_rows (eq ''id'' card_id (delete_from ''credit_cards''))"
  have same: "d\<lparr>tables := (tables d)(''credit_cards'' \<mapsto> rows)\<rparr> = d"
    using assms(1) by (simp add: map_upd_triv)
  {
    assume nf: "fault d ?qu = None"
    have su: "selects ascii_fold ?qu r = (get_prop r ''id'' = Some (JStr card_id))" for r
      by (simp add: selects_def select_rows_def eq_def update_in_def)
    have fu: "filter (selects ascii_fold ?qu) rows = []"
      and mu: "map (\<lambda>r. if selects ascii_fold ?qu r then merge_row r cardData else r) rows = rows"
      using assms(2) by (auto simp: su filter_empty_conv intro: map_idI)
    have tu: "tbl ?qu = ''credit_cards''" "verb ?qu = Update cardData" "returning ?qu"
      by (simp_all add: select_rows_def eq_def update_in_def)
    have eu: "ref_exec coll ?qu d = (answered True [], d)"
      using assms(1) nf by (simp add: ref_exec_def ref_exec_with_def tu fu mu same)
    show "run (put_api_cards_id card_id cardData) (ref_env coll llm) d =
            (\<lparr>status = 404, body = JObj [(''error'', JStr msg_not_found)]\<rparr>, [StoreCall ?qu], d)"
      by (simp add: put_api_cards_id_def ref_env_def eu answered_def not_found_def)
  }
  {
    assume nf: "fault d ?qd = None"
    have sd: "selects ascii_fold ?qd r = (get_prop r ''id'' = Some (JStr card_id))" for r
      by (simp add: selects_def select_rows_def eq_def delete_from_def)
    have fd: "filter (selects ascii_fold ?qd) rows = []"
      and md: "filter (\<lambda>r. \<not> selects ascii_fold ?qd r) rows = rows"
      using assms(2) by (auto simp: sd filter_empty_conv filter_id_conv)
    have td: "tbl ?qd = ''credit_cards''" "verb ?qd = Delete" "returning ?qd"
      by (simp_all add: select_rows_def eq_def delete_from_def)
    have ed: "ref_exec coll ?qd d = (answered True [], d)"
      using assms(1) nf by (simp add: ref_exec_def ref_exec_with_def td fd md same)
    show "run (delete_api_cards_id card_id) (ref_env coll llm) d =
            (\<lparr>status = 404, body = JObj [(''error'', JStr msg_not_found)]\<rparr>, [StoreCall ?qd], d)"
      by (simp add: delete_api_cards_id_def ref_env_def ed answered_def not_found_def)
  }
qed

theorem missing_id_is_404_witness:
  "run (put_api_cards_id ''7'' card_new) (ref_env byte_collation llm_hello) (demo_db no_fault) =
     (\<lparr>status = 404, body = JObj [(''error'', JStr msg_not_found)]\<rparr>,
      [StoreCall (select_rows (eq ''id'' ''7'' (update_in ''credit_cards'' card_new)))],
      demo_db no_fault)
   \<and> run (delete_api_cards_id ''7'') (ref_env byte_collation llm_hello) (demo_db no_fault) =
     (\<lparr>status = 404, body = JObj [(''error'', JStr msg_not_found)]\<rparr>,
      [StoreCall (select_rows (eq ''id'' ''7'' (delete_from ''credit_cards'')))],
      demo_db no_fault)"
  using missing_id_is_404 [of "demo_db no_fault" "[card_hsbc, card_citi]" "''7''" card_new
      byte_collation llm_hello]
  by (simp add: demo_db_def no_fault_def card_hsbc_def card_citi_def)

subsection \<open>Listing the cards\<close>

text \<open>
  Claim C8. For every successful list request, the returned array of card records is
  sorted in ascending order of the issuer field, whatever the order in which the store
  holds the records: the array is a rearrangement of the table whose issuers ascend in
  the store's collation.
\<close>

theorem list_is_sorted_by_issuer:
  fixes coll :: "json option \<Rightarrow> 'k::linorder"
  assumes "tables d ''credit_cards'' = Some rows"
    and "fault d (order col_issuer True (select_from ''credit_cards'')) = None"
  shows "\<exists>out. answer (run get_api_cards (ref_env coll llm) d) = \<lparr>status = 200, body = JArr out\<rparr>
           \<and> sorted (map (\<lambda>r. coll (get_prop r col_issuer)) out) \<and> mset out = mset rows"
  using assms
  by (simp add: get_api_cards_def ref_env_def ref_exec_def ref_exec_with_def order_def select_from_def answer_def
      answered_def ordered_def selects_def)

theorem list_is_sorted_by_issuer_witness:
  "\<exists>out. answer (run get_api_cards (ref_env byte_collation llm_hello) (demo_db no_fault)) =
            \<lparr>status = 200, body = JArr out\<rparr>
         \<and> sorted (map (\<lambda>r. byte_collation (get_prop r col_issuer)) out)
         \<and> mset out = mset [card_hsbc, card_citi]"
  using list_is_sorted_by_issuer [of "demo_db no_fault" "[card_hsbc, card_citi]" byte_collation
      llm_hello]
  by (simp add: demo_db_def no_fault_def)

subsection \<open>Filtering the cards\<close>

lemma takeWhile_snoc_stop: "\<not> P a \<Longrightarrow> takeWhile P (xs @ [a]) = takeWhile P xs"
  by (induction xs) auto

lemma dropWhile_snoc_stop: "\<not> P a \<Longrightarrow> dropWhile P (xs @ [a]) = dropWhile P xs @ [a]"
  by (induction xs) auto

lemma utf8_chars_snoc:
  "ascii_byte a \<Longrightarrow> utf8_chars (p @ [a]) = utf8_chars p @ [[a]]"
proof (induction p rule: utf8_chars.induct)
  case 1
  then show ?case by simp
next
  case (2 b bs)
  from "2.prems" have nc: "\<not> cont_byte a"
    by (simp add: ascii_byte_def cont_byte_def)
  show ?case
  proof (cases "ascii_byte b")
    case True
    with 2 show ?thesis by simp
  next
    case False
    with 2 show ?thesis
      using nc by (simp add: takeWhile_snoc_stop dropWhile_snoc_stop)
  qed
qed

lemma utf8_chars_bytes:
  "c \<in> set (utf8_chars p) \<Longrightarrow> c \<noteq> [] \<and> set c \<subseteq> set p"
proof (induction p rule: utf8_chars.induct)
  case 1
  then show ?case by simp
next
  case (2 b bs)
  show ?case
  proof (cases "ascii_byte b")
    case True
    with 2 show ?thesis by auto
  next
    case False
    with "2.prems" have "c = b # takeWhile cont_byte bs \<or> c \<in> set (utf8_chars (dropWhile cont_byte bs))"
      by simp
    then show ?thesis
    proof
      assume "c = b # takeWhile cont_byte bs"
      then show ?thesis by (auto dest: set_takeWhileD)
    next
      assume "c \<in> set (utf8_chars (dropWhile cont_byte bs))"
      with "2.IH"(2) [OF False] have "c \<noteq> [] \<and> set c \<subseteq> set (dropWhile cont_byte bs)"
        by simp
      then show ?thesis by (auto dest: set_dropWhileD)
    qed
  qed
qed

lemma plain_chars_literal:
  assumes "plain p"
  shows "list_all literal (utf8_chars p)"
proof -
  have "literal c" if "c \<in> set (utf8_chars p)" for c
  proof -
    from utf8_chars_bytes [OF that] have "set c \<subseteq> set p"
      by simp
    with assms have "CHR ''%'' \<notin> set c" "CHR ''_'' \<notin> set c" "CHR 0x5C \<notin> set c"
      by (auto simp: plain_def list_all_iff)
    then show ?thesis
      by (auto simp: literal_def)
  qed
  then show ?thesis
    by (simp add: list_all_iff)
qed

lemma plain_no_star: "plain p \<Longrightarrow> map star_to_percent p = p"
  by (induction p) (auto simp: plain_def star_to_percent_def)

lemma like_literal_prefix:
  "list_all literal p \<Longrightarrow>
     like cfold (p @ q) s \<longleftrightarrow> (\<exists>u t. s = u @ t \<and> map cfold u = map cfold p \<and> like cfold q t)"
proof (induction p arbitrary: s)
  case Nil
  then show ?case by simp
next
  case (Cons a p)
  from Cons.prems have la: "literal a" and p: "list_all literal p"
    by simp_all
  from la have a: "a \<noteq> ''%''" "a \<noteq> ''_''" "a \<noteq> [CHR 0x5C]"
    by (simp_all add: literal_def)
  show ?case
  proof (cases s)
    case Nil
    with a show ?thesis by simp
  next
    case (Cons c cs)
    have "(\<exists>u t. c # cs = u @ t \<and> map cfold u = map cfold (a # p) \<and> like cfold q t) \<longleftrightarrow>
            cfold c = cfold a \<and> (\<exists>u t. cs = u @ t \<and> map cfold u = map cfold p \<and> like cfold q t)"
      (is "?L \<longleftrightarrow> ?R")
    proof
      assume ?L
      then obtain u t where h: "c # cs = u @ t" "map cfold u = map cfold (a # p)" "like cfold q t"
        by blast
      from h(2) obtain u0 us where u: "u = u0 # us"
        by (cases u) auto
      with h have "cfold c = cfold a" "cs = us @ t" "map cfold us = map cfold p"
        by simp_all
      with h(3) show ?R by blast
    next
      assume ?R
      then obtain u t where "cs = u @ t" "map cfold u = map cfold p" "like cfold q t"
        and "cfold c = cfold a"
        by blast
      then have "c # cs = (c # u) @ t \<and> map cfold (c # u) = map cfold (a # p) \<and> like cfold q t"
        by simp
      then show ?L by blast
    qed
    with a Cons Cons.IH [OF p, of cs] show ?thesis by simp
  qed
qed

lemma like_percent:
  "like cfold (''%'' # q) s \<longleftrightarrow> (\<exists>u t. s = u @ t \<and> like cfold q t)"
proof (induction s)
  case Nil
  then show ?case by simp
next
  case (Cons c cs)
  have "(\<exists>u t. c # cs = u @ t \<and> like cfold q t) \<longleftrightarrow>
          like cfold q (c # cs) \<or> (\<exists>u t. cs = u @ t \<and> like cfold q t)"
    by (auto simp: Cons_eq_append_conv)
  with Cons show ?case by simp
qed

lemma sublist_map_iff:
  "sublist (map f p) (map f s) \<longleftrightarrow> (\<exists>pre u v. s = pre @ u @ v \<and> map f u = map f p)"
proof
  assume "sublist (map f p) (map f s)"
  then obtain a b where "map f s = a @ map f p @ b"
    unfolding sublist_def by blast
  then obtain pre rest where s: "s = pre @ rest" and "map f p @ b = map f rest"
    unfolding map_eq_append_conv by blast
  then obtain u v where "rest = u @ v" and "map f u = map f p"
    unfolding append_eq_map_conv by metis
  with s show "\<exists>pre u v. s = pre @ u @ v \<and> map f u = map f p"
    by blast
next
  assume "\<exists>pre u v. s = pre @ u @ v \<and> map f u = map f p"
  then obtain pre u v where "s = pre @ u @ v" and "map f u = map f p"
    by blast
  then have "map f s = map f pre @ map f p @ map f v"
    by simp
  then show "sublist (map f p) (map f s)"
    unfolding sublist_def by blast
qed

lemma like_contains:
  assumes "list_all literal p"
  shows "like cfold (''%'' # p @ [''%'']) s \<longleftrightarrow> sublist (map cfold p) (map cfold s)"
proof -
  have "like cfold [''%''] t" for t
    using like_percent [of cfold "[]" t] by simp
  then have "like cfold (p @ [''%'']) t \<longleftrightarrow> (\<exists>u v. t = u @ v \<and> map cfold u = map cfold p)" for t
    using like_literal_prefix [OF assms, of cfold "[''%'']" t] by simp
  then show ?thesis
    unfolding like_percent sublist_map_iff by blast
qed

lemma ilike_contains:
  assumes "plain p"
  shows "ilike_match cfold (CHR ''%'' # p @ ''%'') s = contains_ci cfold s p"
proof -
  have "utf8_chars (CHR ''%'' # p @ ''%'') = ''%'' # utf8_chars p @ [''%'']"
    using utf8_chars_snoc [of "CHR ''%''" p] by (simp add: ascii_byte_def)
  then show ?thesis
    unfolding ilike_match_def contains_ci_def
    using like_contains [OF plain_chars_literal [OF assms], of cfold "utf8_chars s"]
    by (simp add: plain_no_star [OF assms] star_to_percent_def)
qed

lemma filters_add_ilike:
  "filters (add_ilike col param q) =
     filters q @ (case param of None \<Rightarrow> []
                  | Some p \<Rightarrow> if p \<noteq> [] then [Ilike col (''%'' @ p @ ''%'')] else [])"
  by (simp add: add_ilike_def ilike_def split: option.splits)

lemma add_ilike_keeps:
  "tbl (add_ilike col param q) = tbl q" "verb (add_ilike col param q) = verb q"
  "order_by (add_ilike col param q) = order_by q"
  by (simp_all add: add_ilike_def ilike_def split: option.splits)

lemma matches_meets:
  "list_all (\<lambda>f. matches cfold f r)
     (case param of None \<Rightarrow> []
      | Some p \<Rightarrow> if p \<noteq> [] then [Ilike col (''%'' @ p @ ''%'')] else [])
   = meets cfold param col r"
  by (cases param) (auto simp: ilike_contains split: option.splits json.splits)

text \<open>
  Two checks of the model: \<^verbatim>\<open>_\<close> stands for one character, also when the character
  takes three bytes, and \<open>ref_env\<close> is the general store at the ASCII folding.
\<close>

lemma ilike_underscore_is_one_character:
  "ilike_match ascii_fold ''a_b'' (''A'' @ [CHR 0xE5, CHR 0x8D, CHR 0xA1] @ ''b'')
   \<and> \<not> ilike_match ascii_fold ''a___b'' (''A'' @ [CHR 0xE5, CHR 0x8D, CHR 0xA1] @ ''b'')"
  by (simp add: ilike_match_def star_to_percent_def ascii_fold_def ascii_byte_def cont_byte_def)

lemma ref_env_ascii: "ref_env coll llm = ref_env_with ascii_fold coll llm"
  by (simp add: ref_env_def ref_env_with_def ref_exec_def [abs_def])

text \<open>
  Claim C7 says that each parameter present applies a case-insensitive substring match.
  The handler puts the parameter into an \<open>ilike\<close> pattern as it comes, so the store reads
  the pattern characters in it: \<^verbatim>\<open>d_n\<close> selects a card whose category is
  \<^verbatim>\<open>Dining\<close>, which does not contain \<^verbatim>\<open>d_n\<close>.
\<close>

theorem filter_wildcards_are_not_literal:
  "answer (run (get_api_cards_filter (Some ''d_n'') None) (ref_env byte_collation llm_hello)
      (demo_db no_fault)) = \<lparr>status = 200, body = JArr [card_hsbc, card_citi]\<rparr>
   \<and> get_prop card_hsbc col_spend_category = Some (JStr ''Dining'')
   \<and> \<not> contains_ci ascii_fold ''Dining'' ''d_n''"
  by (simp add: get_api_cards_filter_def add_ilike_def ilike_def select_from_def ref_env_def
      ref_exec_def ref_exec_with_def demo_db_def no_fault_def answered_def ordered_def
      selects_def answer_def card_hsbc_def card_citi_def ilike_match_def star_to_percent_def
      contains_ci_def ascii_fold_def ascii_byte_def sublist_Cons_right col_issuer_def
      col_card_name_def col_spend_category_def col_reward_value_def col_region_def)

text \<open>
  Claim C7, amended. For every filter request that the store answers, the records
  returned are exactly the records of the table that meet the constraint of the category
  parameter on the spend category column and the constraint of the region parameter on
  the region column (the two are combined conjunctively), where each parameter by itself
  puts this constraint: a parameter that is present, non-empty and free of the pattern
  characters \<^verbatim>\<open>%\<close>, \<^verbatim>\<open>_\<close>, backslash and \<^verbatim>\<open>*\<close> applies a case-insensitive
  substring match against its column, letters compared by the case folding of the store;
  a parameter that is present, non-empty and holds pattern characters is matched against
  its column as the \<open>ILIKE\<close> pattern made of the parameter between two \<^verbatim>\<open>%\<close>; a
  parameter that is absent or empty imposes no constraint.
\<close>

theorem filter_is_conjunctive_substring_match:
  assumes "tables d ''credit_cards'' = Some rows"
    and "fault d (add_ilike col_region region
           (add_ilike col_spend_category category (select_from ''credit_cards''))) = None"
  shows "answer (run (get_api_cards_filter category region) (ref_env_with cfold coll llm) d) =
           \<lparr>status = 200, body = JArr
              (filter (\<lambda>r. meets cfold category col_spend_category r \<and>
                           meets cfold region col_region r) rows)\<rparr>"
proof -
  let ?q = "add_ilike col_region region
              (add_ilike col_spend_category category (select_from ''credit_cards''))"
  have sel: "selects cfold ?q r =
      (meets cfold category col_spend_category r \<and> meets cfold region col_region r)" for r
    unfolding selects_def filters_add_ilike
    using matches_meets [where cfold = cfold and r = r and param = category
        and col = col_spend_category]
      matches_meets [where cfold = cfold and r = r and param = region and col = col_region]
    by (simp add: select_from_def)
  have q: "tbl ?q = ''credit_cards''" "verb ?q = Select" "order_by ?q = None"
    by (simp_all add: add_ilike_keeps select_from_def)
  have "ref_exec_with cfold coll ?q d =
          (answered True
             (filter (\<lambda>r. meets cfold category col_spend_category r \<and>
                          meets cfold region col_region r) rows), d)"
    using assms by (simp add: ref_exec_with_def q ordered_def sel [abs_def])
  then show ?thesis
    by (simp add: get_api_cards_filter_def ref_env_with_def answered_def answer_def)
qed

theorem filter_is_conjunctive_substring_match_witness:
  "answer (run (get_api_cards_filter (Some ''DINING'') (Some ''Over''))
      (ref_env_with ascii_fold byte_collation llm_hello) (demo_db no_fault)) =
     \<lparr>status = 200, body = JArr [card_citi]\<rparr>
   \<and> answer (run (get_api_cards_filter (Some ''DINING'') None)
      (ref_env_with ascii_fold byte_collation llm_hello) (demo_db no_fault)) =
     \<lparr>status = 200, body = JArr [card_hsbc, card_citi]\<rparr>
   \<and> answer (run (get_api_cards_filter (Some ''dining'') (Some ''l_c''))
      (ref_env_with ascii_fold byte_collation llm_hello) (demo_db no_fault)) =
     \<lparr>status = 200, body = JArr [card_hsbc]\<rparr>"
  using filter_is_conjunctive_substring_match [where d = "demo_db no_fault"
      and rows = "[card_hsbc, card_citi]" and category = "Some ''DINING''"
      and region = "Some ''Over''" and cfold = ascii_fold and coll = byte_collation
      and llm = llm_hello]
    filter_is_conjunctive_substring_match [where d = "demo_db no_fault"
      and rows = "[card_hsbc, card_citi]" and category = "Some ''DINING''"
      and region = None and cfold = ascii_fold and coll = byte_collation and llm = llm_hello]
    filter_is_conjunctive_substring_match [where d = "demo_db no_fault"
      and rows = "[card_hsbc, card_citi]" and category = "Some ''dining''"
      and region = "Some ''l_c''" and cfold = ascii_fold and coll = byte_collation
      and llm = llm_hello]
  by (simp add: demo_db_def no_fault_def plain_def card_hsbc_def card_citi_def
      contains_ci_def ilike_match_def star_to_percent_def ascii_fold_def ascii_byte_def
      sublist_Cons_right col_issuer_def col_card_name_def col_spend_category_def
      col_reward_value_def col_region_def)

text \<open>
  Claim C10. For every filter request in which the category or the region parameter is
  present but equal to the empty string, that parameter imposes no constraint: the
  handler does what it does when the parameter is absent, so the result is the same in
  every store.
\<close>

theorem empty_filter_parameter_is_no_filter:
  "get_api_cards_filter (Some []) region = get_api_cards_filter None region
   \<and> get_api_cards_filter category (Some []) = get_api_cards_filter category None"
  by (simp add: get_api_cards_filter_def add_ilike_def)

theorem empty_filter_parameter_is_no_filter_witness:
  "run (get_api_cards_filter (Some []) (Some ''local'')) (ref_env byte_collation llm_hello)
      (demo_db no_fault) =
   run (get_api_cards_filter None (Some ''local'')) (ref_env byte_collation llm_hello)
      (demo_db no_fault)
   \<and> run (get_api_cards_filter (Some ''dining'') (Some [])) (ref_env byte_collation llm_hello)
      (demo_db no_fault) =
   run (get_api_cards_filter (Some ''dining'') None) (ref_env byte_collation llm_hello)
      (demo_db no_fault)"
  using empty_filter_parameter_is_no_filter [of "Some ''local''" "Some ''dining''"]
  by simp


end
